theory Spec2Isabelle
  imports Main "HOL-Library.AList" "HOL-Library.Product_Lexorder"
begin

section \<open>Instants, strings and the host environment\<close>

text \<open>
  A JavaScript \<open>Date\<close> is modelled by its time value: the milliseconds since the epoch,
  an integer. Only valid dates are modelled (a \<open>Date\<close> object is always truthy, so
  \<open>x || null\<close> on a date-or-null is the value itself). A missing value (\<open>null\<close>,
  \<open>undefined\<close>) is \<open>None\<close>.

  Strings are lists of 8-bit code units. The local time zone of the host is a fixed
  offset \<open>tz\<close> in milliseconds, a whole number of minutes; the host clock
  (\<open>new Date()\<close>) and the host's local-time \<open>Date\<close> constructor are parameters.
\<close>

type_synonym instant = int

definition dash :: string where
  \<comment> \<open>the em dash U+2014, here in its three-byte encoding\<close>
  "dash = [char_of (226::nat), char_of (128::nat), char_of (148::nat)]"

definition digitChar :: "nat \<Rightarrow> char" where
  "digitChar n = ''0123456789'' ! (n mod 10)"

function strNat :: "nat \<Rightarrow> string" where
  "strNat n = (if n < 10 then [digitChar n] else strNat (n div 10) @ [digitChar (n mod 10)])"
  by pat_completeness auto
termination
  by (relation "measure id") auto

declare strNat.simps [simp del]

definition strInt :: "int \<Rightarrow> string" where
  \<comment> \<open>\<open>String(n)\<close> on an integer\<close>
  "strInt i = (if i < 0 then CHR ''-'' # strNat (nat (- i)) else strNat (nat i))"

definition padStart2 :: "char \<Rightarrow> string \<Rightarrow> string" where
  \<comment> \<open>\<open>s.padStart(2, c)\<close>\<close>
  "padStart2 c s = replicate (2 - length s) c @ s"

definition getHours :: "int \<Rightarrow> instant \<Rightarrow> int" where
  "getHours tz d = ((d + tz) div 3600000) mod 24"

definition getMinutes :: "int \<Rightarrow> instant \<Rightarrow> int" where
  "getMinutes tz d = ((d + tz) div 60000) mod 60"

definition hhmmLocal :: "int \<Rightarrow> instant \<Rightarrow> string" where
  "hhmmLocal tz d =
     padStart2 CHR ''0'' (strInt (getHours tz d)) @ '':'' @ padStart2 CHR ''0'' (strInt (getMinutes tz d))"

definition fmtHHMM :: "int \<Rightarrow> instant \<Rightarrow> string" where
  "fmtHHMM tz d =
     (let hh = padStart2 CHR ''0'' (strInt (getHours tz d));
          mm = padStart2 CHR ''0'' (strInt (getMinutes tz d))
      in hh @ '':'' @ mm)"

definition padWait :: "int \<Rightarrow> string" where
  "padWait m = padStart2 CHR '' '' (strInt m) @ '' min''"

definition addMinutes :: "instant \<Rightarrow> int \<Rightarrow> instant" where
  "addMinutes d m = d + m * 60000"

definition ymdLocal :: "int \<Rightarrow> instant \<Rightarrow> int" where
  \<comment> \<open>The local calendar date of \<open>d\<close>, kept as its day number (days since 1970-01-01 in
      local time); the source renders this date as the text YYYY-MM-DD, one text per date.\<close>
  "ymdLocal tz d = (d + tz) div 86400000"

definition floorToMinute :: "instant \<Rightarrow> instant" where
  \<comment> \<open>\<open>setSeconds(0, 0)\<close>\<close>
  "floorToMinute d = d - d mod 60000"

section \<open>The simulated now\<close>

definition isSpace :: "char \<Rightarrow> bool" where
  \<comment> \<open>the white space and line terminators that \<open>trim\<close> removes, among 8-bit code units\<close>
  "isSpace c = (of_char c \<in> {9::nat, 10, 11, 12, 13, 32, 160})"

definition trim :: "string \<Rightarrow> string" where
  "trim s = rev (dropWhile isSpace (rev (dropWhile isSpace s)))"

fun replaceSpaceT :: "string \<Rightarrow> string" where
  \<comment> \<open>\<open>t.replace(" ", "T")\<close>: the first space only\<close>
  "replaceSpaceT [] = []"
| "replaceSpaceT (c # cs) = (if c = CHR '' '' then CHR ''T'' # cs else c # replaceSpaceT cs)"

definition isDigit :: "char \<Rightarrow> bool" where
  "isDigit c = (c \<in> set ''0123456789'')"

definition digitsAt :: "string \<Rightarrow> nat \<Rightarrow> nat \<Rightarrow> bool" where
  "digitsAt s i n = list_all isDigit (take n (drop i s))"

definition numberAt :: "string \<Rightarrow> nat \<Rightarrow> nat \<Rightarrow> int" where
  \<comment> \<open>\<open>Number\<close> of a captured group of digits\<close>
  "numberAt s i n = foldl (\<lambda>a c. 10 * a + (int (of_char c) - 48)) 0 (take n (drop i s))"

definition matchStamp :: "string \<Rightarrow> bool" where
  \<comment> \<open>the regular expression \<open>^(\d{4})-(\d{2})-(\d{2})T(\d{2}):(\d{2})$\<close>\<close>
  "matchStamp s =
     (length s = 16 \<and> digitsAt s 0 4 \<and> s ! 4 = CHR ''-'' \<and> digitsAt s 5 2 \<and> s ! 7 = CHR ''-''
      \<and> digitsAt s 8 2 \<and> s ! 10 = CHR ''T'' \<and> digitsAt s 11 2 \<and> s ! 13 = CHR '':''
      \<and> digitsAt s 14 2)"

type_synonym mkDate = "int \<Rightarrow> int \<Rightarrow> int \<Rightarrow> int \<Rightarrow> int \<Rightarrow> instant option"
  \<comment> \<open>the host's \<open>new Date(year, monthIndex, day, hours, minutes, 0, 0)\<close> in local time;
      \<open>None\<close> is the invalid date\<close>

definition parseStartOverride :: "mkDate \<Rightarrow> string \<Rightarrow> instant option" where
  "parseStartOverride mk s =
     (if s = [] then None
      else let t = trim s in
        if t = [] then None
        else let norm = replaceSpaceT t in
          if \<not> matchStamp norm then None
          else mk (numberAt norm 0 4) (numberAt norm 5 2 - 1) (numberAt norm 8 2)
                  (numberAt norm 11 2) (numberAt norm 14 2))"

record state =
  startOverride :: string
  homeStop :: string
  layoverMin :: int

record nowInfo =
  now :: instant
  overrideOk :: bool

definition getNowInfo :: "mkDate \<Rightarrow> instant \<Rightarrow> state \<Rightarrow> nowInfo" where
  "getNowInfo mk clock st =
     (let raw = trim (startOverride st);
          parsed = parseStartOverride mk raw
      in if raw \<noteq> [] \<and> parsed = None
         then \<lparr>now = floorToMinute clock, overrideOk = False\<rparr>
         else \<lparr>now = floorToMinute (case parsed of Some d \<Rightarrow> d | None \<Rightarrow> clock),
               overrideOk = True\<rparr>)"

definition getNow :: "mkDate \<Rightarrow> instant \<Rightarrow> state \<Rightarrow> instant" where
  "getNow mk clock st =
     floorToMinute (case parseStartOverride mk (trim (startOverride st)) of
                      Some d \<Rightarrow> d | None \<Rightarrow> clock)"

definition canUsePredictions :: "state \<Rightarrow> bool" where
  "canUsePredictions st = (trim (startOverride st) = [])"

section \<open>The time-window slicer\<close>

record slice =
  date :: int
  min_time :: string
  max_time :: string

text \<open>
  The loop over the middle days runs while the date of \<open>cur\<close> differs from the end date;
  it has no other exit, so it is a partial function: \<open>None\<close> is the loop that never ends.
\<close>

partial_function (option) middleDays :: "int \<Rightarrow> instant \<Rightarrow> int \<Rightarrow> slice list \<Rightarrow> slice list option" where
  "middleDays tz cur endY slices =
     (if ymdLocal tz cur \<noteq> endY
      then middleDays tz (cur + 86400000) endY
             (slices @ [\<lparr>date = ymdLocal tz cur, min_time = ''00:00'', max_time = ''23:59''\<rparr>])
      else Some slices)"

declare middleDays.simps [code]

definition startOfNextDay :: "int \<Rightarrow> instant \<Rightarrow> instant" where
  \<comment> \<open>\<open>cur.setHours(0, 0, 0, 0); cur.setDate(cur.getDate() + 1)\<close>\<close>
  "startOfNextDay tz d = (d - (d + tz) mod 86400000) + 86400000"

definition scheduleSlicesForWindow :: "int \<Rightarrow> instant \<Rightarrow> instant \<Rightarrow> int \<Rightarrow> slice list option" where
  "scheduleSlicesForWindow tz start end padMin =
     (let startPad = addMinutes start (- padMin);
          endPad = addMinutes end padMin;
          startY = ymdLocal tz startPad;
          endY = ymdLocal tz endPad
      in if startY = endY
         then Some [\<lparr>date = startY, min_time = hhmmLocal tz startPad, max_time = hhmmLocal tz endPad\<rparr>]
         else case middleDays tz (startOfNextDay tz startPad) endY
                     [\<lparr>date = startY, min_time = hhmmLocal tz startPad, max_time = ''23:59''\<rparr>] of
                None \<Rightarrow> None
              | Some slices \<Rightarrow>
                  Some (slices @ [\<lparr>date = endY, min_time = ''00:00'', max_time = hhmmLocal tz endPad\<rparr>]))"

section \<open>Pairs, bus trips and the partial overlay of predictions\<close>

record tripRec =
  tripId :: string

record pair = tripRec +
  fromT :: instant
  toT :: instant

record mpair = pair +
  fromPred :: bool
  toPred :: bool
  schedFromT :: "instant option"
  schedToT :: "instant option"

text \<open>
  A JavaScript \<open>Map\<close> keeps its keys in insertion order: it is an association list with
  distinct keys, \<open>get\<close> is \<open>map_of\<close>, and \<open>set\<close> is \<open>AList.update\<close>, which replaces
  the value of a key in place and appends a new key. \<open>new Set([...])\<close> keeps the first
  occurrence of each element, in order.
\<close>

definition newSet :: "'a list \<Rightarrow> 'a list" where
  "newSet xs = rev (remdups (rev xs))"

definition inWindow :: "instant \<Rightarrow> instant \<Rightarrow> instant \<Rightarrow> bool" where
  "inWindow start end t = (t \<ge> start \<and> t \<le> end)"

definition pickStep :: "instant \<Rightarrow> instant \<Rightarrow> (string \<times> pair) list \<Rightarrow> pair \<Rightarrow> (string \<times> pair) list" where
  "pickStep start end m p =
     (case map_of m (tripId p) of
        None \<Rightarrow> AList.update (tripId p) p m
      | Some prev \<Rightarrow>
          (let inWin = (fromT p \<ge> start \<and> fromT p \<le> end);
               prevIn = (fromT prev \<ge> start \<and> fromT prev \<le> end)
           in if inWin \<and> \<not> prevIn then AList.update (tripId p) p m
              else if inWin \<and> prevIn \<and> fromT p < fromT prev then AList.update (tripId p) p m
              else if \<not> inWin \<and> \<not> prevIn
                then (let d1 = \<bar>fromT p - start\<bar>; d0 = \<bar>fromT prev - start\<bar>
                      in if d1 < d0 then AList.update (tripId p) p m else m)
              else m))"

definition pickSchedBestForWindow :: "pair list \<Rightarrow> instant \<Rightarrow> instant \<Rightarrow> (string \<times> pair) list" where
  "pickSchedBestForWindow schedPairs start end = foldl (pickStep start end) [] schedPairs"

definition predGet :: "(string \<times> instant) list option \<Rightarrow> string \<Rightarrow> instant option" where
  \<comment> \<open>\<open>predMap?.get(tripId) || null\<close>\<close>
  "predGet predMap tid = (case predMap of None \<Rightarrow> None | Some m \<Rightarrow> map_of m tid)"

definition predKeys :: "(string \<times> instant) list option \<Rightarrow> string list" where
  "predKeys predMap = (case predMap of None \<Rightarrow> [] | Some m \<Rightarrow> map fst m)"

definition orElse :: "'a option \<Rightarrow> 'a option \<Rightarrow> 'a option" where
  \<comment> \<open>\<open>a || b\<close> on values that are truthy when present\<close>
  "orElse a b = (case a of Some x \<Rightarrow> Some x | None \<Rightarrow> b)"

definition mergeTrip ::
  "(string \<times> pair) list \<Rightarrow> (string \<times> instant) list option \<Rightarrow> (string \<times> instant) list option
     \<Rightarrow> string \<Rightarrow> mpair option" where
  "mergeTrip schedMap predFromMap predToMap tid =
     (let s = map_of schedMap tid;
          schedFrom = map_option fromT s;
          schedTo = map_option toT s;
          predFromT = predGet predFromMap tid;
          predToT = predGet predToMap tid
      in case (orElse predFromT schedFrom, orElse predToT schedTo) of
           (Some f, Some t) \<Rightarrow>
             if \<not> (f < t) then None
             else Some \<lparr>tripId = tid, fromT = f, toT = t,
                        fromPred = (predFromT \<noteq> None), toPred = (predToT \<noteq> None),
                        schedFromT = schedFrom, schedToT = schedTo\<rparr>
         | _ \<Rightarrow> None)"

definition mergePairsPartial ::
  "pair list \<Rightarrow> (string \<times> instant) list option \<Rightarrow> (string \<times> instant) list option
     \<Rightarrow> instant \<Rightarrow> instant \<Rightarrow> mpair list" where
  "mergePairsPartial schedPairs predFromMap predToMap start end =
     (let schedMap = pickSchedBestForWindow schedPairs start end;
          tripIds = newSet (map fst schedMap @ predKeys predFromMap @ predKeys predToMap);
          out = List.map_filter (mergeTrip schedMap predFromMap predToMap) tripIds
      in sort_key fromT out)"

record busTimes =
  depHarv :: instant
  arrDisp :: instant

record bus = tripRec +
  dep :: instant
  depPred :: bool
  schedDep :: "instant option"
  arrDisp :: instant
  arrPred :: bool
  schedArr :: "instant option"
  home :: "instant option"
  homePred :: bool
  schedHome :: "instant option"

definition mergeBus ::
  "(string \<times> busTimes) list \<Rightarrow> (string \<times> instant) list \<Rightarrow> (string \<times> busTimes) list
     \<Rightarrow> (string \<times> instant) list \<Rightarrow> string \<Rightarrow> bus option" where
  "mergeBus schedBusByTrip schedHomeByTrip predBusByTrip predHomeByTrip tid =
     (let sb = map_of schedBusByTrip tid;
          pb = map_of predBusByTrip tid
      in case (orElse (map_option depHarv pb) (map_option depHarv sb),
               orElse (map_option busTimes.arrDisp pb) (map_option busTimes.arrDisp sb)) of
           (Some d, Some a) \<Rightarrow>
             (let sh = map_of schedHomeByTrip tid;
                  ph = map_of predHomeByTrip tid
              in Some \<lparr>tripId = tid, bus.dep = d, depPred = (pb \<noteq> None),
                        schedDep = map_option depHarv sb,
                        bus.arrDisp = a, arrPred = (pb \<noteq> None),
                        schedArr = map_option busTimes.arrDisp sb,
                        bus.home = orElse ph sh, homePred = (ph \<noteq> None), schedHome = sh\<rparr>)
         | _ \<Rightarrow> None)"

definition mergeBusByTripId ::
  "(string \<times> busTimes) list \<Rightarrow> (string \<times> instant) list \<Rightarrow> (string \<times> busTimes) list
     \<Rightarrow> (string \<times> instant) list \<Rightarrow> bus list" where
  "mergeBusByTripId schedBusByTrip schedHomeByTrip predBusByTrip predHomeByTrip =
     (let tripIds = newSet (map fst schedBusByTrip @ map fst predBusByTrip
                            @ map fst schedHomeByTrip @ map fst predHomeByTrip);
          out = List.map_filter (mergeBus schedBusByTrip schedHomeByTrip predBusByTrip predHomeByTrip)
                  tripIds
      in sort_key bus.dep out)"

section \<open>The two ordered searches\<close>

text \<open>
  \<open>(lo + hi) >> 1\<close> is the integer half of \<open>lo + hi\<close> for every array that fits in
  memory. Both loops read \<open>arr[mid]\<close> with \<open>lo \<le> mid < hi \<le> arr.length\<close>.
\<close>

function upperBoundLoop :: "'a pair_scheme list \<Rightarrow> instant \<Rightarrow> nat \<Rightarrow> nat \<Rightarrow> nat" where
  "upperBoundLoop arr cutoffToT lo hi =
     (if lo < hi
      then (let mid = (lo + hi) div 2
            in if toT (arr ! mid) \<le> cutoffToT then upperBoundLoop arr cutoffToT (mid + 1) hi
               else upperBoundLoop arr cutoffToT lo mid)
      else lo)"
  by pat_completeness auto
termination
  by (relation "measure (\<lambda>(arr, c, lo, hi). hi - lo)") auto

declare upperBoundLoop.simps [simp del]

definition upperBoundByToT :: "'a pair_scheme list \<Rightarrow> instant \<Rightarrow> nat" where
  "upperBoundByToT arr cutoffToT = upperBoundLoop arr cutoffToT 0 (length arr)"

function lowerBoundLoop :: "bus list \<Rightarrow> instant \<Rightarrow> nat \<Rightarrow> nat \<Rightarrow> nat" where
  "lowerBoundLoop arr ready lo hi =
     (if lo < hi
      then (let mid = (lo + hi) div 2
            in if bus.dep (arr ! mid) < ready then lowerBoundLoop arr ready (mid + 1) hi
               else lowerBoundLoop arr ready lo mid)
      else lo)"
  by pat_completeness auto
termination
  by (relation "measure (\<lambda>(arr, r, lo, hi). hi - lo)") auto

declare lowerBoundLoop.simps [simp del]

definition lowerBoundByDep :: "bus list \<Rightarrow> instant \<Rightarrow> bus option" where
  "lowerBoundByDep arr ready =
     (let lo = lowerBoundLoop arr ready 0 (length arr)
      in if lo < length arr then Some (arr ! lo) else None)"

section \<open>The connection assigner\<close>

text \<open>
  A group key is the text \<open><ISO departure>|<trip id>\<close>, or \<open>NONE|__NONE__\<close>. The ISO
  text of an instant has no bar and is one text per instant, so a key is kept as the pair
  of its two parts: the departure instant (\<open>None\<close> for the text \<open>NONE\<close>) and what follows
  the first bar. \<open>key.split("|")[1]\<close> is that second part up to its own first bar.
\<close>

type_synonym groupKey = "instant option \<times> string"

definition noneKey :: groupKey where
  "noneKey = (None, ''__NONE__'')"

definition busKey :: "bus \<Rightarrow> groupKey" where
  "busKey b = (Some (bus.dep b), tripId b)"

definition keyTripId :: "groupKey \<Rightarrow> string" where
  "keyTripId k = takeWhile (\<lambda>c. c \<noteq> CHR ''|'') (snd k)"

record cell =
  text' :: string
  pred :: bool
  schedText :: string

definition timeCell :: "string \<Rightarrow> bool \<Rightarrow> string \<Rightarrow> cell" where
  "timeCell t p s = \<lparr>text' = t, pred = p, schedText = s\<rparr>"

record assignment =
  gkey :: groupKey
  arlington :: cell
  redParkDate :: instant
  redParkPred :: bool
  redParkSched :: "instant option"
  waitMin :: "int option"

definition schedText_of :: "int \<Rightarrow> instant option \<Rightarrow> string" where
  \<comment> \<open>\<open>t ? fmtHHMM(t) : ""\<close>\<close>
  "schedText_of tz t = (case t of Some s \<Rightarrow> fmtHHMM tz s | None \<Rightarrow> [])"

definition arlingtonCell :: "int \<Rightarrow> instant \<Rightarrow> mpair list \<Rightarrow> instant \<Rightarrow> cell" where
  "arlingtonCell tz start greenPairs redPark =
     (if greenPairs \<noteq> []
      then (let cutoff = redPark - 60000;
                idx = int (upperBoundByToT greenPairs cutoff) - 1
            in if idx \<ge> 0
               then (let gp = greenPairs ! nat idx;
                         greenArl = fromT gp;
                         shown = (if greenArl \<ge> start then fmtHHMM tz greenArl else dash);
                         pred = (fromPred gp \<and> shown \<noteq> dash);
                         sched = schedText_of tz (schedFromT gp)
                     in timeCell shown pred sched)
               else timeCell dash False [])
      else timeCell dash False [])"

definition bufferMs :: "state \<Rightarrow> int" where
  "bufferMs st = max 0 (layoverMin st) * 60000"

definition assignRed :: "int \<Rightarrow> instant \<Rightarrow> int \<Rightarrow> mpair list \<Rightarrow> bus list \<Rightarrow> mpair \<Rightarrow> assignment" where
  "assignRed tz start bufMs greenPairs busSorted rp =
     (let redPark = fromT rp;
          redHarvArr = toT rp;
          arl = arlingtonCell tz start greenPairs redPark;
          ready = redHarvArr + bufMs
      in case lowerBoundByDep busSorted ready of
           None \<Rightarrow>
             \<lparr>gkey = noneKey, arlington = arl, redParkDate = redPark, redParkPred = fromPred rp,
              redParkSched = schedFromT rp, waitMin = None\<rparr>
         | Some b \<Rightarrow>
             \<lparr>gkey = busKey b, arlington = arl, redParkDate = redPark, redParkPred = fromPred rp,
              redParkSched = schedFromT rp, waitMin = Some ((bus.dep b - redHarvArr) div 60000)\<rparr>)"

definition redInWindow :: "instant \<Rightarrow> instant \<Rightarrow> mpair list \<Rightarrow> mpair list" where
  \<comment> \<open>the filter to the window by Park arrival, and its sort\<close>
  "redInWindow start end redPairs =
     sort_key fromT (filter (\<lambda>p. fromT p \<ge> start \<and> fromT p \<le> end) redPairs)"

definition assignAll :: "int \<Rightarrow> instant \<Rightarrow> int \<Rightarrow> mpair list \<Rightarrow> bus list \<Rightarrow> mpair list \<Rightarrow> assignment list" where
  "assignAll tz start bufMs greenPairs busSorted redPairs =
     map (assignRed tz start bufMs greenPairs busSorted) redPairs"

section \<open>Groups, their order and the best marking\<close>

record meta = tripRec +
  dep :: "instant option"
  busArr :: "instant option"
  busArrPred :: bool
  busArrSched :: "instant option"
  home :: "instant option"
  homePred :: bool
  homeSched :: "instant option"
  parkBestDate :: "instant option"

record group =
  key :: groupKey
  meta :: meta
  items :: "assignment list"
  best :: bool

definition pushAssigned :: "(groupKey \<times> assignment list) list \<Rightarrow> assignment \<Rightarrow> (groupKey \<times> assignment list) list" where
  "pushAssigned m a =
     (case map_of m (gkey a) of
        None \<Rightarrow> AList.update (gkey a) [a] m
      | Some its \<Rightarrow> AList.update (gkey a) (its @ [a]) m)"

definition keepBusGroup ::
  "bool \<Rightarrow> instant \<Rightarrow> instant \<Rightarrow> (groupKey \<times> assignment list) list \<Rightarrow> bus \<Rightarrow> (groupKey \<times> assignment list) list" where
  "keepBusGroup includeHome start end m b =
     (let depInWindow = (bus.dep b \<ge> start \<and> bus.dep b \<le> end);
          homeInWindow = (includeHome \<and> (case bus.home b of None \<Rightarrow> False
                                          | Some h \<Rightarrow> h \<ge> start \<and> h \<le> end))
      in if \<not> depInWindow \<and> \<not> homeInWindow then m
         else if map_of m (busKey b) = None then AList.update (busKey b) [] m
         else m)"

definition groupsMapOf ::
  "bool \<Rightarrow> instant \<Rightarrow> instant \<Rightarrow> assignment list \<Rightarrow> bus list \<Rightarrow> (groupKey \<times> assignment list) list" where
  "groupsMapOf includeHome start end assigned busSorted =
     foldl (keepBusGroup includeHome start end) (foldl pushAssigned [] assigned) busSorted"

definition busLookupOf :: "bus list \<Rightarrow> (groupKey \<times> bus) list" where
  "busLookupOf busSorted = foldl (\<lambda>m b. AList.update (busKey b) b m) [] busSorted"

definition attachMeta :: "(groupKey \<times> bus) list \<Rightarrow> groupKey \<times> assignment list \<Rightarrow> group" where
  "attachMeta busLookup g =
     (let tid = keyTripId (fst g);
          m = (if tid = ''__NONE__''
               then \<lparr>tripId = tid, meta.dep = None, busArr = None, busArrPred = False,
                     busArrSched = None, meta.home = None, meta.homePred = False, homeSched = None,
                     parkBestDate = None\<rparr>
               else (let b = map_of busLookup (fst g)
                     in \<lparr>tripId = tid, meta.dep = fst (fst g),
                         busArr = map_option bus.arrDisp b,
                         busArrPred = (case b of None \<Rightarrow> False | Some x \<Rightarrow> arrPred x),
                         busArrSched = (case b of None \<Rightarrow> None | Some x \<Rightarrow> schedArr x),
                         meta.home = (case b of None \<Rightarrow> None | Some x \<Rightarrow> bus.home x),
                         meta.homePred = (case b of None \<Rightarrow> False | Some x \<Rightarrow> bus.homePred x),
                         homeSched = (case b of None \<Rightarrow> None | Some x \<Rightarrow> schedHome x),
                         parkBestDate = None\<rparr>))
      in \<lparr>key = fst g, meta = m, items = sort_key redParkDate (snd g), best = False\<rparr>)"

definition orderKey :: "group \<Rightarrow> nat \<times> int" where
  \<comment> \<open>the comparator of the group sort: the groups without a bus last and equal among
      themselves, the others by departure\<close>
  "orderKey g =
     (if tripId (meta g) = ''__NONE__'' then (1, 0)
      else (0, case meta.dep (meta g) of Some d \<Rightarrow> d | None \<Rightarrow> 0))"

definition groupsOrderedOf :: "(groupKey \<times> bus) list \<Rightarrow> (groupKey \<times> assignment list) list \<Rightarrow> group list" where
  "groupsOrderedOf busLookup groupsMap = sort_key orderKey (map (attachMeta busLookup) groupsMap)"

definition usable :: "group \<Rightarrow> bool" where
  "usable g = (tripId (meta g) \<noteq> ''__NONE__'' \<and> length (items g) > 0)"

definition markBestGroups :: "group list \<Rightarrow> group list" where
  "markBestGroups groupsOrdered =
     (let us = filter usable groupsOrdered;
          lastKey = (if us \<noteq> [] then Some (key (last us)) else None)
      in map (\<lambda>g. g\<lparr>best := (tripId (meta g) \<noteq> ''__NONE__'' \<and> length (items g) > 0
                               \<and> Some (key g) \<noteq> lastKey)\<rparr>)
           groupsOrdered)"

section \<open>Row projection and the plan\<close>

datatype cellv = Cell cell | Str string

record row =
  arlington :: cell
  park :: cell
  layover :: string
  harvard :: cell
  home :: cellv
  bestRow :: bool

record outGroup = tripRec +
  key :: groupKey
  meta :: meta
  best :: bool
  rowsCollapsed :: row
  rowsExpanded :: "row list"

definition busCell :: "int \<Rightarrow> instant \<Rightarrow> bool \<Rightarrow> instant option \<Rightarrow> cell" where
  \<comment> \<open>\<open>timeCell(fmtHHMM(t), pred, sched ? fmtHHMM(sched) : "")\<close>\<close>
  "busCell tz t p sched = timeCell (fmtHHMM tz t) p (schedText_of tz sched)"

definition emptyRow :: "int \<Rightarrow> bool \<Rightarrow> instant \<Rightarrow> instant \<Rightarrow> instant \<Rightarrow> int \<Rightarrow> meta \<Rightarrow> row" where
  "emptyRow tz includeHome start end now' mhl m =
     (let busArr = meta.busArr m;
          homeArr = (if includeHome then meta.home m else None);
          onlyHomeLeft = (includeHome
             \<and> (case homeArr of None \<Rightarrow> False | Some h \<Rightarrow> h \<ge> start \<and> h \<le> end)
             \<and> (case busArr of None \<Rightarrow> True | Some a \<Rightarrow> a < start \<or> a > end));
          minsToHarvardArr = map_option (\<lambda>a. max 0 ((a - now') div 60000)) busArr;
          proxyLayoverMin = map_option (\<lambda>x. min x mhl) minsToHarvardArr
      in \<lparr>row.arlington = timeCell dash False [],
          park = timeCell dash False [],
          layover = (if onlyHomeLeft then dash
                     else case proxyLayoverMin of None \<Rightarrow> dash | Some x \<Rightarrow> padWait x),
          harvard = (if onlyHomeLeft then timeCell dash False []
                     else case busArr of
                            Some a \<Rightarrow> busCell tz a (busArrPred m) (busArrSched m)
                          | None \<Rightarrow> timeCell dash False []),
          row.home = (if includeHome
                      then (case homeArr of
                              Some h \<Rightarrow> Cell (busCell tz h (meta.homePred m) (homeSched m))
                            | None \<Rightarrow> Str [])
                      else Str []),
          bestRow = False\<rparr>)"

definition itemRow :: "int \<Rightarrow> bool \<Rightarrow> meta \<Rightarrow> bool \<Rightarrow> assignment \<Rightarrow> row" where
  "itemRow tz includeHome m isLast it =
     (let parkCell = timeCell (fmtHHMM tz (redParkDate it)) (redParkPred it)
                       (schedText_of tz (redParkSched it));
          harvCell = (case meta.busArr m of
                        Some a \<Rightarrow> if isLast then busCell tz a (busArrPred m) (busArrSched m)
                                  else timeCell [] False []
                      | None \<Rightarrow> timeCell [] False []);
          homeCell = (case meta.home m of
                        Some h \<Rightarrow> if isLast \<and> includeHome
                                  then busCell tz h (meta.homePred m) (homeSched m)
                                  else timeCell [] False []
                      | None \<Rightarrow> timeCell [] False [])
      in \<lparr>row.arlington = assignment.arlington it,
          park = parkCell,
          layover = (case waitMin it of None \<Rightarrow> dash | Some w \<Rightarrow> padWait w),
          harvard = harvCell,
          row.home = (if includeHome then Cell homeCell else Str []),
          bestRow = False\<rparr>)"

definition projectGroup ::
  "int \<Rightarrow> bool \<Rightarrow> instant \<Rightarrow> instant \<Rightarrow> instant \<Rightarrow> int \<Rightarrow> group \<Rightarrow> outGroup" where
  "projectGroup tz includeHome start end now' mhl g =
     (let its = items g;
          rowsExp0 =
            (if its = [] then [emptyRow tz includeHome start end now' mhl (group.meta g)]
             else map (\<lambda>(idx, it). itemRow tz includeHome (group.meta g) (idx = length its - 1) it)
                    (enumerate 0 its));
          bestIdx = length rowsExp0 - 1;
          rowsExp =
            (if its \<noteq> [] \<and> group.best g
             then rowsExp0[bestIdx := (rowsExp0 ! bestIdx)\<lparr>bestRow := True\<rparr>]
             else rowsExp0);
          m = (group.meta g)\<lparr>parkBestDate :=
                 (if its = [] then None else Some (redParkDate (its ! bestIdx)))\<rparr>;
          lastRow = rowsExp ! (length rowsExp - 1);
          collapsed =
            (if its \<noteq> []
             then (let lastItem = its ! (length its - 1);
                       a = text' (row.arlington lastRow);
                       la = text' (assignment.arlington lastItem)
                   in if a = [] \<and> la \<noteq> []
                      then lastRow\<lparr>row.arlington := assignment.arlington lastItem\<rparr>
                      else lastRow)
             else lastRow)
      in \<lparr>tripId = tripId (group.meta g), key = group.key g, meta = m, best = group.best g,
          rowsCollapsed = collapsed, rowsExpanded = rowsExp\<rparr>)"

record loaded =
  schedBusByTrip :: "(string \<times> busTimes) list"
  schedHomeByTrip :: "(string \<times> instant) list"
  predBusByTrip :: "(string \<times> busTimes) list"
  predHomeByTrip :: "(string \<times> instant) list"
  schedGreenPairs :: "pair list"
  greenPredArl :: "(string \<times> instant) list"
  greenPredPark :: "(string \<times> instant) list"
  schedRedPairs :: "pair list"
  redPredPark :: "(string \<times> instant) list"
  redPredHarv :: "(string \<times> instant) list"

definition busSortedOf :: "state \<Rightarrow> loaded \<Rightarrow> bus list" where
  "busSortedOf st ld =
     (let includeHome = (trim (homeStop st) \<noteq> []);
          sh = (if includeHome then schedHomeByTrip ld else []);
          pb = (if canUsePredictions st then predBusByTrip ld else []);
          ph = (if canUsePredictions st \<and> includeHome then predHomeByTrip ld else []);
          busSorted = mergeBusByTripId (schedBusByTrip ld) sh pb ph
      in if includeHome
         then filter (\<lambda>b. case bus.home b of None \<Rightarrow> False | Some h \<Rightarrow> h > bus.dep b) busSorted
         else busSorted)"

definition greenPairsOf :: "state \<Rightarrow> loaded \<Rightarrow> instant \<Rightarrow> instant \<Rightarrow> mpair list" where
  "greenPairsOf st ld start end =
     sort_key toT
       (if canUsePredictions st
        then mergePairsPartial (schedGreenPairs ld) (Some (greenPredArl ld)) (Some (greenPredPark ld))
               start end
        else mergePairsPartial (schedGreenPairs ld) None None start end)"

definition redMergedOf :: "state \<Rightarrow> loaded \<Rightarrow> instant \<Rightarrow> instant \<Rightarrow> mpair list" where
  "redMergedOf st ld start end =
     (if canUsePredictions st
      then mergePairsPartial (schedRedPairs ld) (Some (redPredPark ld)) (Some (redPredHarv ld))
             start end
      else mergePairsPartial (schedRedPairs ld) None None start end)"

definition redPairsOf :: "state \<Rightarrow> loaded \<Rightarrow> instant \<Rightarrow> instant \<Rightarrow> mpair list" where
  "redPairsOf st ld start end = redInWindow start end (redMergedOf st ld start end)"

definition assignedOf :: "int \<Rightarrow> state \<Rightarrow> loaded \<Rightarrow> instant \<Rightarrow> instant \<Rightarrow> assignment list" where
  "assignedOf tz st ld start end =
     assignAll tz start (bufferMs st) (greenPairsOf st ld start end) (busSortedOf st ld)
       (redPairsOf st ld start end)"

definition groupsOrderedFor :: "int \<Rightarrow> state \<Rightarrow> loaded \<Rightarrow> instant \<Rightarrow> instant \<Rightarrow> group list" where
  "groupsOrderedFor tz st ld start end =
     groupsOrderedOf (busLookupOf (busSortedOf st ld))
       (groupsMapOf (trim (homeStop st) \<noteq> []) start end (assignedOf tz st ld start end)
          (busSortedOf st ld))"

record plan =
  start :: instant
  endT :: instant
  includeHome :: bool
  groups :: "outGroup list"
  groupsAvailable :: bool
  overrideOk :: bool

record host =
  tzOffset :: int
  mkLocal :: mkDate
  clock :: instant
  clockRows :: instant

text \<open>
  The data the adapter returns is the record \<open>loaded\<close>: the schedule maps after the
  window-aware upserts over the slices, and the prediction maps, which are read only when
  no simulated now is set. The two clocks of the host are the reading at the start of the
  computation and the reading in the row loop (which has no suspension point).
\<close>

definition buildGroupsForWindow :: "host \<Rightarrow> int \<Rightarrow> state \<Rightarrow> loaded \<Rightarrow> plan option" where
  "buildGroupsForWindow h hours st ld =
     (let includeHome = (trim (homeStop st) \<noteq> []);
          ni = getNowInfo (mkLocal h) (clock h) st;
          start = now ni;
          end = start + hours * 3600 * 1000
      in case scheduleSlicesForWindow (tzOffset h) start end 30 of
           None \<Rightarrow> None
         | Some scheduleSlices \<Rightarrow>
             (let groupsOrdered = markBestGroups (groupsOrderedFor (tzOffset h) st ld start end);
                  out = map (projectGroup (tzOffset h) includeHome start end
                               (getNow (mkLocal h) (clockRows h) st) (max 0 (layoverMin st)))
                          groupsOrdered
              in Some \<lparr>start = start, endT = end, includeHome = includeHome, groups = out,
                       groupsAvailable = (length (redPairsOf st ld start end) > 0),
                       overrideOk = nowInfo.overrideOk ni\<rparr>))"

definition getBestGroup :: "plan \<Rightarrow> outGroup option" where
  \<comment> \<open>the notification layer's lookup of the group whose collapsed row is the best row\<close>
  "getBestGroup p = find (\<lambda>g. bestRow (rowsCollapsed g)) (groups p)"

section \<open>Example inputs\<close>

text \<open>
  A weekday evening, minutes counted from local midnight: now is 16:30 and the window is
  three hours. Red trips reach Harvard at 17:00, 17:10 and 17:45; buses leave at 16:35,
  17:05 and 17:20; every layover is at least one minute.
\<close>

definition exHost :: host where
  "exHost = \<lparr>tzOffset = 0, mkLocal = (\<lambda>y m d hh mi. None),
             clock = 990 * 60000 + 1234, clockRows = 990 * 60000 + 2345\<rparr>"

definition exState :: state where
  "exState = \<lparr>startOverride = [], homeStop = [], layoverMin = 1\<rparr>"

definition exLoaded :: loaded where
  "exLoaded = \<lparr>
     schedBusByTrip = [(''B1'', \<lparr>depHarv = 1025 * 60000, busTimes.arrDisp = 1025 * 60000\<rparr>),
                       (''B0'', \<lparr>depHarv = 995 * 60000, busTimes.arrDisp = 994 * 60000\<rparr>),
                       (''B2'', \<lparr>depHarv = 1040 * 60000, busTimes.arrDisp = 1040 * 60000\<rparr>)],
     schedHomeByTrip = [], predBusByTrip = [], predHomeByTrip = [],
     schedGreenPairs = [\<lparr>tripId = ''G1'', fromT = 990 * 60000, toT = 1000 * 60000\<rparr>,
                        \<lparr>tripId = ''G2'', fromT = 1000 * 60000, toT = 1010 * 60000\<rparr>],
     greenPredArl = [], greenPredPark = [(''G2'', 1011 * 60000)],
     schedRedPairs = [\<lparr>tripId = ''R2'', fromT = 1015 * 60000, toT = 1030 * 60000\<rparr>,
                      \<lparr>tripId = ''R1'', fromT = 1005 * 60000, toT = 1020 * 60000\<rparr>,
                      \<lparr>tripId = ''R3'', fromT = 1050 * 60000, toT = 1065 * 60000\<rparr>,
                      \<lparr>tripId = ''R4'', fromT = 980 * 60000, toT = 995 * 60000\<rparr>],
     redPredPark = [], redPredHarv = []\<rparr>"

definition exGroups :: "group list" where
  "exGroups = groupsOrderedFor 0 exState exLoaded (990 * 60000) (1170 * 60000)"

definition exPlan :: plan where
  "exPlan = the (buildGroupsForWindow exHost 3 exState exLoaded)"

section \<open>Best marking\<close>

lemma filter_neq_length:
  "distinct (map f xs) \<Longrightarrow> x \<in> set xs \<Longrightarrow> length (filter (\<lambda>y. f y \<noteq> f x) xs) = length xs - 1"
proof (induction xs)
  case Nil
  then show ?case by simp
next
  case (Cons a xs)
  show ?case
  proof (cases "a = x")
    case True
    with Cons.prems have "f x \<notin> f ` set xs" by simp
    then have "\<forall>y \<in> set xs. f y \<noteq> f x" by (metis imageI)
    then have "filter (\<lambda>y. f y \<noteq> f x) xs = xs" by (simp add: filter_id_conv)
    with True show ?thesis by simp
  next
    case False
    with Cons.prems have xin: "x \<in> set xs" and ne: "f a \<noteq> f x" by auto
    with Cons have "length (filter (\<lambda>y. f y \<noteq> f x) xs) = length xs - 1" by simp
    moreover from xin have "length xs > 0" by (cases xs) auto
    ultimately show ?thesis using ne by simp
  qed
qed

lemma markBest_nth:
  "i < length gs \<Longrightarrow>
   markBestGroups gs ! i = (gs ! i)\<lparr>group.best := (usable (gs ! i) \<and>
       (filter usable gs \<noteq> [] \<longrightarrow> group.key (gs ! i) \<noteq> group.key (last (filter usable gs))))\<rparr>"
  by (auto simp: markBestGroups_def Let_def usable_def)

lemma markBest_count:
  assumes "distinct (map group.key gs)"
  shows "length (filter group.best (markBestGroups gs)) = length (filter usable gs) - 1"
proof (cases "filter usable gs = []")
  case True
  then have "\<forall>g \<in> set gs. \<not> usable g" by (simp add: filter_empty_conv)
  then have "filter group.best (markBestGroups gs) = []"
    by (auto simp: markBestGroups_def Let_def usable_def filter_empty_conv)
  with True show ?thesis by simp
next
  case False
  define us where "us = filter usable gs"
  define l where "l = last us"
  have lin: "l \<in> set us" unfolding l_def using False last_in_set[of us] by (simp add: us_def)
  have dus: "distinct (map group.key us)" using assms by (simp add: us_def distinct_map_filter)
  have "length (filter group.best (markBestGroups gs))
        = length (filter (\<lambda>g. usable g \<and> group.key g \<noteq> group.key l) gs)"
    using False by (simp add: markBestGroups_def Let_def usable_def filter_map comp_def l_def us_def)
  also have "\<dots> = length (filter (\<lambda>g. group.key g \<noteq> group.key l) us)"
    by (simp add: us_def conj_commute)
  also have "\<dots> = length us - 1" using filter_neq_length[OF dus lin] .
  finally show ?thesis by (simp add: us_def)
qed

lemma last_usable_iff:
  assumes "distinct gs" and "i < length gs" and "usable (gs ! i)"
  shows "(gs ! i = last (filter usable gs)) \<longleftrightarrow> \<not> (\<exists>j. i < j \<and> j < length gs \<and> usable (gs ! j))"
  using assms
proof (induction gs rule: rev_induct)
  case Nil
  then show ?case by simp
next
  case (snoc x xs)
  show ?case
  proof (cases "i < length xs")
    case True
    then have nth: "(xs @ [x]) ! i = xs ! i" by (simp add: nth_append)
    from snoc.prems True have ux: "usable (xs ! i)" by (simp add: nth_append)
    from snoc.prems have dxs: "distinct xs" and xn: "x \<notin> set xs" by auto
    show ?thesis
    proof (cases "usable x")
      case ux': True
      have "xs ! i \<noteq> x" using xn True by (metis nth_mem)
      moreover have "\<exists>j. i < j \<and> j < length (xs @ [x]) \<and> usable ((xs @ [x]) ! j)"
        using True ux' by (intro exI[of _ "length xs"]) simp
      ultimately show ?thesis using ux' nth by simp
    next
      case False
      have IH: "(xs ! i = last (filter usable xs)) \<longleftrightarrow> \<not> (\<exists>j. i < j \<and> j < length xs \<and> usable (xs ! j))"
        using snoc.IH[OF dxs True ux] .
      have "(\<exists>j. i < j \<and> j < length (xs @ [x]) \<and> usable ((xs @ [x]) ! j))
            \<longleftrightarrow> (\<exists>j. i < j \<and> j < length xs \<and> usable (xs ! j))"
      proof
        assume "\<exists>j. i < j \<and> j < length (xs @ [x]) \<and> usable ((xs @ [x]) ! j)"
        then obtain j where j: "i < j" "j < length (xs @ [x])" "usable ((xs @ [x]) ! j)" by blast
        then have "j \<noteq> length xs" using False by auto
        with j have "j < length xs" by simp
        with j show "\<exists>j. i < j \<and> j < length xs \<and> usable (xs ! j)" by (auto simp: nth_append)
      next
        assume "\<exists>j. i < j \<and> j < length xs \<and> usable (xs ! j)"
        then obtain j where j: "i < j" "j < length xs" "usable (xs ! j)" by blast
        then have "j < length (xs @ [x])" "usable ((xs @ [x]) ! j)" by (simp_all add: nth_append)
        with j show "\<exists>j. i < j \<and> j < length (xs @ [x]) \<and> usable ((xs @ [x]) ! j)" by blast
      qed
      with IH False nth show ?thesis by simp
    qed
  next
    case False
    with snoc.prems have i: "i = length xs" by simp
    with snoc.prems have "usable x" by simp
    then show ?thesis using i by simp
  qed
qed

text \<open>
  Claim C3. The groups of a plan are the values of a map, so their keys differ. Over such
  a list in its chronological order, a group is usable when its trip identity is not the
  sentinel and it has at least one item. \<open>markBestGroups\<close> changes nothing but the best
  flag; a group is marked best exactly when it is usable and a later group of the list is
  usable too, that is, every usable group but the last one. So with \<open>N\<close> usable groups
  the number of best groups is \<open>N - 1\<close>, and zero when there are none (the subtraction on
  natural numbers stops at zero); a group that is not usable is never best.
\<close>

theorem markBestGroups_all_but_last_usable:
  assumes "distinct (map group.key gs)"
  shows "length (markBestGroups gs) = length gs
     \<and> length (filter group.best (markBestGroups gs)) = length (filter usable gs) - 1
     \<and> (\<forall>i < length gs.
           group.key (markBestGroups gs ! i) = group.key (gs ! i)
         \<and> group.meta (markBestGroups gs ! i) = group.meta (gs ! i)
         \<and> items (markBestGroups gs ! i) = items (gs ! i)
         \<and> (group.best (markBestGroups gs ! i) \<longleftrightarrow>
              usable (gs ! i) \<and> (\<exists>j. i < j \<and> j < length gs \<and> usable (gs ! j))))"
proof -
  have d: "distinct gs" using assms by (rule distinct_map[THEN iffD1, THEN conjunct1])
  have inj: "inj_on group.key (set gs)" using assms by (simp add: distinct_map)
  have len: "length (markBestGroups gs) = length gs" by (simp add: markBestGroups_def Let_def)
  have best: "group.best (markBestGroups gs ! i) \<longleftrightarrow>
              usable (gs ! i) \<and> (\<exists>j. i < j \<and> j < length gs \<and> usable (gs ! j))"
    if i: "i < length gs" for i
  proof (cases "usable (gs ! i)")
    case False
    then show ?thesis using i by (simp add: markBest_nth)
  next
    case True
    then have ne: "filter usable gs \<noteq> []" using i by (auto simp: filter_empty_conv)
    then have lin: "last (filter usable gs) \<in> set gs"
      using last_in_set[of "filter usable gs"] by auto
    have "group.key (gs ! i) = group.key (last (filter usable gs)) \<longleftrightarrow> gs ! i = last (filter usable gs)"
      using inj lin i by (auto dest: inj_onD)
    moreover have "group.best (markBestGroups gs ! i) \<longleftrightarrow>
                   group.key (gs ! i) \<noteq> group.key (last (filter usable gs))"
      using True ne i by (simp add: markBest_nth)
    ultimately show ?thesis using True last_usable_iff[OF d i True] by blast
  qed
  have same: "group.key (markBestGroups gs ! i) = group.key (gs ! i)
     \<and> group.meta (markBestGroups gs ! i) = group.meta (gs ! i)
     \<and> items (markBestGroups gs ! i) = items (gs ! i)" if "i < length gs" for i
    using that by (simp add: markBest_nth)
  show ?thesis using len markBest_count[OF assms] best same by blast
qed


theorem markBestGroups_all_but_last_usable_witness:
  "distinct (map group.key exGroups)
   \<and> length (filter usable exGroups) = 2
   \<and> map group.best (markBestGroups exGroups) = [False, True, False, False]
   \<and> length (filter group.best (markBestGroups exGroups)) = length (filter usable exGroups) - 1"
proof -
  have h: "distinct (map group.key exGroups)" by code_simp
  have u: "length (filter usable exGroups) = 2" by code_simp
  have b: "map group.best (markBestGroups exGroups) = [False, True, False, False]" by code_simp
  show ?thesis using h u b markBestGroups_all_but_last_usable[OF h] by simp
qed

section \<open>The collapsed row and the best group\<close>

lemma markBest_empty_not_best:
  "g \<in> set (markBestGroups gs) \<Longrightarrow> items g = [] \<Longrightarrow> \<not> group.best g"
  by (auto simp: markBestGroups_def Let_def)

lemma projectGroup_bestRow:
  "bestRow (rowsCollapsed (projectGroup tz ih s e n mhl g)) = (items g \<noteq> [] \<and> group.best g)"
  by (cases "items g")
     (auto simp: projectGroup_def Let_def emptyRow_def itemRow_def enumerate_eq_zip
                 nth_list_update split: prod.splits)

lemma projectGroup_best: "outGroup.best (projectGroup tz ih s e n mhl g) = group.best g"
  by (simp add: projectGroup_def Let_def)

lemma buildGroups_groups:
  assumes "buildGroupsForWindow h hours st ld = Some p"
  shows "groups p =
           map (projectGroup (tzOffset h) (trim (homeStop st) \<noteq> [])
                  (now (getNowInfo (mkLocal h) (clock h) st))
                  (now (getNowInfo (mkLocal h) (clock h) st) + hours * 3600 * 1000)
                  (getNow (mkLocal h) (clockRows h) st) (max 0 (layoverMin st)))
               (markBestGroups (groupsOrderedFor (tzOffset h) st ld
                  (now (getNowInfo (mkLocal h) (clock h) st))
                  (now (getNowInfo (mkLocal h) (clock h) st) + hours * 3600 * 1000)))"
  using assms by (auto simp: buildGroupsForWindow_def Let_def split: option.splits)



end
